theory Spec2Isabelle
  imports Main
begin

section \<open>Values of the host language\<close>

text \<open>
  The communicator moves values of type \<open>any\<close>. Only a few observations of a value are
  made by the code: \<open>typeof\<close>, truthiness, \<open>instanceof Error\<close>, strict equality with
  \<open>undefined\<close>, \<open>null\<close> and \<open>Function.toString\<close>, reading a member and calling a function.
  A function value is a reference (its number); an error instance carries its \<open>name\<close>,
  \<open>message\<close>, \<open>stack\<close> (when the engine records one) and own enumerable properties.
  \<open>JObject\<close> is an object of data properties, \<open>JAccessors\<close> an object of accessor
  properties, each with the reference of its getter.
  Numbers that travel as payload are never computed with and are kept as integers.
\<close>

datatype jsval =
    JUndefined
  | JNull
  | JBoolean bool
  | JNumber int
  | JString string
  | JArray "jsval list"
  | JObject "(string \<times> jsval) list"
  | JAccessors "(string \<times> nat) list"
  | JFunction nat
  | JBound nat jsval
  | JError string string "string option" "(string \<times> jsval) list"

text \<open>The result of awaiting a call: a value, a thrown (or rejected) value, or a promise
  that never settles.\<close>

datatype outcome = Returns jsval | Throws jsval | Hangs

fun typeof :: "jsval \<Rightarrow> string" where
  "typeof JUndefined = ''undefined''"
| "typeof JNull = ''object''"
| "typeof (JBoolean b) = ''boolean''"
| "typeof (JNumber n) = ''number''"
| "typeof (JString s) = ''string''"
| "typeof (JArray xs) = ''object''"
| "typeof (JObject ps) = ''object''"
| "typeof (JAccessors gs) = ''object''"
| "typeof (JFunction f) = ''function''"
| "typeof (JBound f t) = ''function''"
| "typeof (JError n m st ps) = ''object''"

fun truthy :: "jsval \<Rightarrow> bool" where
  "truthy JUndefined = False"
| "truthy JNull = False"
| "truthy (JBoolean b) = b"
| "truthy (JNumber n) = (n \<noteq> 0)"
| "truthy (JString s) = (s \<noteq> [])"
| "truthy v = True"

fun instanceof_Error :: "jsval \<Rightarrow> bool" where
  "instanceof_Error (JError n m st ps) = True"
| "instanceof_Error v = False"

fun error_message :: "jsval \<Rightarrow> string option" where
  "error_message (JError n m st ps) = Some m"
| "error_message v = None"

text \<open>A call into a function: its reference, the receiver and the arguments.\<close>

type_synonym function_call = "nat \<times> jsval \<times> jsval list"

text \<open>
  What the code takes from the JavaScript engine, as parameters of the model:
  \<^item> \<open>get_member v name\<close> is the read \<open>v[name]\<close>: the calls the read itself makes (the
    getter of an accessor property, the \<open>get\<close> trap of a Proxy), and the value read or the
    exception thrown (a \<open>TypeError\<close> when \<open>v\<close> is \<open>undefined\<close> or \<open>null\<close>).
  \<^item> \<open>call_function f thisArg args\<close> is what the call of function \<open>f\<close> returns or throws.
  \<^item> \<open>await_value v\<close> is \<open>await v\<close>: the calls the adoption of a thenable makes (its
    \<open>then\<close>), and how the awaited value settles.
  \<^item> \<open>error_stack msg\<close> is the stack trace the engine stores in \<open>new Error(msg)\<close>.
  \<^item> \<open>create_list v\<close> is the argument list \<open>Function.prototype.apply\<close> builds from \<open>v\<close>
    (\<open>None\<close>: a \<open>TypeError\<close>).
\<close>

record runtime =
  get_member :: "jsval \<Rightarrow> string \<Rightarrow> function_call list \<times> (jsval + jsval)"
  call_function :: "nat \<Rightarrow> jsval \<Rightarrow> jsval list \<Rightarrow> jsval + jsval"
  await_value :: "jsval \<Rightarrow> function_call list \<times> outcome"
  error_stack :: "string \<Rightarrow> string option"
  create_list :: "jsval \<Rightarrow> jsval list option"

definition new_Error :: "runtime \<Rightarrow> string \<Rightarrow> jsval" where
  "new_Error rt msg = JError ''Error'' msg (error_stack rt msg) []"

definition new_TypeError :: "runtime \<Rightarrow> string \<Rightarrow> jsval" where
  "new_TypeError rt msg = JError ''TypeError'' msg (error_stack rt msg) []"

text \<open>\<open>Function.toString\<close> is \<open>Function.prototype.toString\<close>, one function of the engine;
  it has the reference 0. \<open>Function.prototype.bind\<close> has the reference 1.\<close>

definition Function_toString :: jsval where
  "Function_toString = JFunction 0"

definition Function_bind :: jsval where
  "Function_bind = JFunction 1"

text \<open>Modelled from the spec: the error serializer \<open>utils/internal/serializeError\<close> is not
  among the sources. Section 4.2: the plain record \<open>{ name, message, stack,
  ...ownEnumerableProperties }\<close>, the stack if present; other values pass unchanged.\<close>

fun serializeError :: "jsval \<Rightarrow> jsval" where
  "serializeError (JError n m st ps) =
     JObject ([(''name'', JString n), (''message'', JString m)]
              @ (case st of None \<Rightarrow> [] | Some s \<Rightarrow> [(''stack'', JString s)])
              @ ps)"
| "serializeError v = v"

section \<open>Invoke messages (Invoke.ts)\<close>

datatype IParameter = IParameter (param_type: string) (param_value: jsval)

datatype Invoke =
    IFunction nat string "IParameter list"
  | IReturn nat bool jsval

section \<open>Communicator (Communicator.ts)\<close>

text \<open>
  The two continuations of the promise a call returns; the number is the promise.
  A \<open>join\<close> in progress is the promise it returned, with whether it is a timed join.
\<close>

datatype FunctionLike = Resolve nat | Reject nat

text \<open>
  The fields of the class, and what the outside observes of it: the messages handed to
  \<open>sendData\<close>, the calls that the dispatch makes into functions reached through the
  provider (by a call, by a member read, by an await), the continuations invoked with their
  argument, and the number of promises created so far.
  The static \<open>SEQUENCE\<close> belongs to the process and is passed beside the communicator.
\<close>

text \<open>Field names are the source's without the trailing underscore (\<open>provider_\<close>,
  \<open>promises_\<close>, \<open>join_cv_\<close>, \<open>header_\<close>, \<open>state_\<close>).\<close>

record Communicator =
  provider :: jsval
  promises :: "(nat \<times> FunctionLike \<times> FunctionLike) list"
  join_cv :: "(nat \<times> bool) list"
  sent :: "Invoke list"
  invoked :: "function_call list"
  settled :: "(FunctionLike \<times> jsval) list"
  promise_count :: nat

text \<open>The abstract methods, given by the subclass: \<open>inspectReady\<close>, and how the
  transmission by \<open>sendData\<close> ends, given the messages sent before.\<close>

record hooks =
  inspectReady :: "string \<Rightarrow> jsval"
  transmit :: "Invoke list \<Rightarrow> Invoke \<Rightarrow> outcome"

definition Communicator_new :: "jsval \<Rightarrow> Communicator" where
  "Communicator_new p =
     \<lparr> provider = p, promises = [], join_cv = [],
       sent = [], invoked = [], settled = [], promise_count = 0 \<rparr>"

section \<open>ConnectorBase\<close>

text \<open>The const enum \<open>ConnectorBase.State\<close>: numbers at run time.\<close>

definition NONE :: int where "NONE = - 1"
definition CONNECTING :: int where "CONNECTING = 0"
definition OPEN :: int where "OPEN = 1"
definition CLOSING :: int where "CLOSING = 2"
definition CLOSED :: int where "CLOSED = 3"

record ConnectorBase = Communicator +
  header :: jsval
  state :: int

definition ConnectorBase_new :: "jsval \<Rightarrow> jsval \<Rightarrow> ConnectorBase" where
  "ConnectorBase_new h p =
     Communicator.extend (Communicator_new p) \<lparr> header = h, state = NONE \<rparr>"

text \<open>\<open>cname\<close> is \<open>this.constructor.name\<close>, the name of the concrete subclass.\<close>

definition ConnectorBase_inspectReady ::
  "runtime \<Rightarrow> string \<Rightarrow> ConnectorBase \<Rightarrow> string \<Rightarrow> jsval" where
  "ConnectorBase_inspectReady rt cname this method =
     (if state this = OPEN then JNull
      else if state this = NONE then
        new_Error rt (''Error on '' @ cname @ ''.'' @ method @ ''(): connect first.'')
      else if state this = CONNECTING then
        new_Error rt (''Error on '' @ cname @ ''.'' @ method
                      @ ''(): it's on connecting, wait for a second.'')
      else if state this = CLOSING then
        new_Error rt (''Error on '' @ cname @ ''.'' @ method
                      @ ''(): the connection is on closing.'')
      else if state this = CLOSED then
        new_Error rt (''Error on '' @ cname @ ''.'' @ method
                      @ ''(): the connection has been closed.'')
      else
        new_Error rt (''Error on '' @ cname @ ''.'' @ method
                      @ ''(): unknown error, but not connected.''))"


section \<open>Communicator: the pending-call table and the counter\<close>

text \<open>
  \<open>HashMap<number, Pair<FunctionLike, FunctionLike>>\<close> of the container library, as
  the list of its entries in insertion order: \<open>find\<close>, \<open>emplace\<close> (which leaves the
  table as it is when the key is present), \<open>erase\<close>.
\<close>

definition HashMap_find ::
  "nat \<Rightarrow> (nat \<times> FunctionLike \<times> FunctionLike) list \<Rightarrow> (FunctionLike \<times> FunctionLike) option" where
  "HashMap_find uid table = map_of table uid"

definition HashMap_emplace ::
  "nat \<Rightarrow> FunctionLike \<times> FunctionLike \<Rightarrow> (nat \<times> FunctionLike \<times> FunctionLike) list
     \<Rightarrow> (nat \<times> FunctionLike \<times> FunctionLike) list" where
  "HashMap_emplace uid pair table =
     (case map_of table uid of None \<Rightarrow> table @ [(uid, pair)] | Some p \<Rightarrow> table)"

definition HashMap_erase ::
  "nat \<Rightarrow> (nat \<times> FunctionLike \<times> FunctionLike) list \<Rightarrow> (nat \<times> FunctionLike \<times> FunctionLike) list" where
  "HashMap_erase uid table = filter (\<lambda>entry. fst entry \<noteq> uid) table"

text \<open>
  \<open>++Communicator.SEQUENCE\<close> on a number: the counter starts at 0 and is changed by this
  increment only, so it holds an integer of at most \<open>2^53\<close>. Below \<open>2^53\<close> the sum is
  exact; \<open>2^53 + 1\<close> is not a double and rounds (ties to even) back to \<open>2^53\<close>.
\<close>

definition increment :: "nat \<Rightarrow> nat" where
  "increment n = (if n < 2 ^ 53 then n + 1 else n)"

section \<open>Communicator: sending\<close>

definition sendData ::
  "hooks \<Rightarrow> Invoke \<Rightarrow> 'a Communicator_scheme \<Rightarrow> 'a Communicator_scheme \<times> outcome" where
  "sendData hk invoke this =
     (this\<lparr>sent := sent this @ [invoke]\<rparr>, transmit hk (sent this) invoke)"

definition Send_return ::
  "hooks \<Rightarrow> nat \<Rightarrow> bool \<Rightarrow> jsval \<Rightarrow> 'a Communicator_scheme \<Rightarrow> 'a Communicator_scheme \<times> outcome" where
  "Send_return hk uid success val this =
     (let val' = (if success = False \<and> instanceof_Error val then serializeError val else val);
          ret = IReturn uid success val'
      in sendData hk ret this)"

section \<open>Communicator: the driver and call issuance\<close>

definition Call_function ::
  "hooks \<Rightarrow> string \<Rightarrow> jsval list \<Rightarrow> nat \<times> 'a Communicator_scheme
     \<Rightarrow> (nat \<times> 'a Communicator_scheme) \<times> nat" where
  "Call_function hk name params st =
     (let SEQUENCE = fst st; this = snd st;
          promise = promise_count this;
          this1 = this\<lparr>promise_count := Suc promise\<rparr>;
          error = inspectReady hk ''Communicator._Call_fuction''
      in if truthy error then
           ((SEQUENCE, this1\<lparr>settled := settled this1 @ [(Reject promise, error)]\<rparr>), promise)
         else
           let uid = increment SEQUENCE;
               invoke = IFunction uid name (map (\<lambda>p. IParameter (typeof p) p) params);
               this2 = this1\<lparr>promises :=
                          HashMap_emplace uid (Resolve promise, Reject promise) (promises this1)\<rparr>
           in ((uid, fst (sendData hk invoke this2)), promise))"

text \<open>
  What an attribute read on the driver or on a function node yields: \<open>null\<close>, the proxy
  of \<open>_Proxy_func(name)\<close>, or one of the three forwarding functions over \<open>func\<close>.
  The forwarding functions are ordinary arrow functions: their members \<open>call\<close>, \<open>apply\<close> and
  \<open>bind\<close> are those of \<open>Function.prototype\<close>, taken with the forwarder as receiver
  (\<open>Function_member\<close>). Any other read on them, and any read on a \<open>Function_member\<close>, is
  decided by the engine's own objects and not followed here (\<open>Engine_determined\<close>: a value
  or an exception of the engine).
\<close>

datatype driver_value =
    Driver_null
  | Proxy_func string
  | Func_bind string
  | Func_call string
  | Func_apply string
  | Function_member driver_value string
  | Engine_determined

definition driver_get :: "string \<Rightarrow> driver_value" where
  "driver_get name = (if name = ''then'' then Driver_null else Proxy_func name)"

definition Proxy_func_get :: "string \<Rightarrow> string \<Rightarrow> driver_value" where
  "Proxy_func_get name newName =
     (if newName = ''bind'' then Func_bind name
      else if newName = ''call'' then Func_call name
      else if newName = ''apply'' then Func_apply name
      else Proxy_func (name @ ''.'' @ newName))"

definition forwarder_get :: "driver_value \<Rightarrow> string \<Rightarrow> driver_value" where
  "forwarder_get forwarder newName =
     (if newName = ''bind'' \<or> newName = ''call'' \<or> newName = ''apply''
      then Function_member forwarder newName else Engine_determined)"

text \<open>A chain of reads \<open>d.a.b.c\<close>. A read on \<open>null\<close> throws: \<open>None\<close>.\<close>

fun read_chain :: "driver_value \<Rightarrow> string list \<Rightarrow> driver_value option" where
  "read_chain v [] = Some v"
| "read_chain Driver_null (newName # rest) = None"
| "read_chain (Proxy_func name) (newName # rest) = read_chain (Proxy_func_get name newName) rest"
| "read_chain (Func_bind name) (newName # rest) =
     read_chain (forwarder_get (Func_bind name) newName) rest"
| "read_chain (Func_call name) (newName # rest) =
     read_chain (forwarder_get (Func_call name) newName) rest"
| "read_chain (Func_apply name) (newName # rest) =
     read_chain (forwarder_get (Func_apply name) newName) rest"
| "read_chain (Function_member forwarder name) (newName # rest) = Some Engine_determined"
| "read_chain Engine_determined (newName # rest) = Some Engine_determined"

fun driver_read :: "string list \<Rightarrow> driver_value option" where
  "driver_read [] = None"
| "driver_read (name # rest) = read_chain (driver_get name) rest"

text \<open>Invoking what was read, with the arguments \<open>args\<close>: a call is issued and its promise
  returned, or a bound function is returned (\<open>func.bind\<close>, or \<open>bind\<close> on a forwarder), or a
  \<open>TypeError\<close> is thrown, or the engine's own objects decide.\<close>

datatype 'a invocation =
    Issued "nat \<times> 'a" nat
  | Bound_func string "jsval list"
  | Bound_forwarder driver_value "jsval list"
  | Type_error
  | Engine_decides

text \<open>The argument list of \<open>apply(thisArg, args)\<close>.\<close>

definition apply_arguments :: "runtime \<Rightarrow> jsval list \<Rightarrow> jsval list option" where
  "apply_arguments rt args =
     (case tl args of [] \<Rightarrow> Some [] | JUndefined # _ \<Rightarrow> Some [] | JNull # _ \<Rightarrow> Some []
      | a # _ \<Rightarrow> create_list rt a)"

fun invoke_value ::
  "runtime \<Rightarrow> hooks \<Rightarrow> driver_value \<Rightarrow> jsval list \<Rightarrow> nat \<times> 'a Communicator_scheme
     \<Rightarrow> 'a Communicator_scheme invocation" where
  "invoke_value rt hk (Proxy_func name) args st =
     (case Call_function hk name args st of (st', promise) \<Rightarrow> Issued st' promise)"
| "invoke_value rt hk (Func_call name) args st =
     (case Call_function hk name (tl args) st of (st', promise) \<Rightarrow> Issued st' promise)"
| "invoke_value rt hk (Func_apply name) args st =
     (case apply_arguments rt args of
        None \<Rightarrow> Type_error
      | Some params \<Rightarrow>
          (case Call_function hk name params st of (st', promise) \<Rightarrow> Issued st' promise))"
| "invoke_value rt hk (Func_bind name) args st = Bound_func name (tl args)"
| "invoke_value rt hk Driver_null args st = Type_error"
| "invoke_value rt hk (Function_member forwarder member) args st =
     (if member = ''call'' then invoke_value rt hk forwarder (tl args) st
      else if member = ''apply'' then
        (case apply_arguments rt args of
           None \<Rightarrow> Type_error
         | Some params \<Rightarrow> invoke_value rt hk forwarder params st)
      else if member = ''bind'' then Bound_forwarder forwarder (tl args)
      else Engine_decides)"
| "invoke_value rt hk Engine_determined args st = Engine_decides"

text \<open>The expression \<open>d.a.b.c(x, y)\<close>: the reads, then the invocation; a \<open>TypeError\<close> when
  a read throws, and when the driver itself is invoked.\<close>

definition driver_call ::
  "runtime \<Rightarrow> hooks \<Rightarrow> string list \<Rightarrow> jsval list \<Rightarrow> nat \<times> 'a Communicator_scheme
     \<Rightarrow> 'a Communicator_scheme invocation" where
  "driver_call rt hk names args st =
     (case driver_read names of None \<Rightarrow> Type_error | Some v \<Rightarrow> invoke_value rt hk v args st)"

section \<open>Communicator: the replier\<close>

text \<open>\<open>listener.split(".")\<close>: never empty; the empty string gives one empty segment.\<close>

fun split_dot :: "string \<Rightarrow> string list" where
  "split_dot [] = [[]]"
| "split_dot (c # cs) =
     (if c = CHR ''.'' then [] # split_dot cs
      else (c # hd (split_dot cs)) # tl (split_dot cs))"

text \<open>\<open>name[0] === "_"\<close> and \<open>name[name.length - 1] === "_"\<close>: both are false on the empty
  segment, where the read gives \<open>undefined\<close>.\<close>

definition starts_underscore :: "string \<Rightarrow> bool" where
  "starts_underscore name = (name \<noteq> [] \<and> hd name = CHR ''_'')"

definition ends_underscore :: "string \<Rightarrow> bool" where
  "ends_underscore name = (name \<noteq> [] \<and> last name = CHR ''_'')"

text \<open>The loop over the routes, from \<open>func\<close> and \<open>thisArg\<close>: the calls made by the member
  reads, and the exception thrown or the final \<open>(func, thisArg)\<close>. The member is read
  before the segment is inspected.\<close>

fun find_function ::
  "runtime \<Rightarrow> string \<Rightarrow> jsval \<Rightarrow> jsval \<Rightarrow> string list
     \<Rightarrow> function_call list \<times> (jsval + jsval \<times> jsval)" where
  "find_function rt listener func thisArg [] = ([], Inr (func, thisArg))"
| "find_function rt listener func thisArg (name # routes) =
     (case get_member rt func name of
        (calls, Inl exp) \<Rightarrow> (calls, Inl exp)
      | (calls, Inr func') \<Rightarrow>
          if starts_underscore name then
            (calls, Inl (new_Error rt (''Error on Communicator._Handle_function(): RFC does not allow access to a member starting with the underscore: Provider.'' @ listener @ ''()'')))
          else if ends_underscore name then
            (calls, Inl (new_Error rt (''Error on Communicator._Handle_function(): RFC does not allow access to a member ending with the underscore: Provider.'' @ listener @ ''().'')))
          else if name = ''toString'' \<and> func' = Function_toString then
            (calls, Inl (new_Error rt (''Error on Communicator._Handle_function(): RFC on Function.toString() is not allowed: Provider.'' @ listener @ ''().'')))
          else if name = ''constructor'' \<or> name = ''prototype'' then
            (calls, Inl (new_Error rt (''Error on Communicator._Handle_function(): RFC does not allow access to '' @ name @ '': Provider.'' @ listener @ ''().'')))
          else
            (case find_function rt listener func' func routes of
               (later, r) \<Rightarrow> (calls @ later, r)))"

text \<open>The call \<open>func(...args)\<close> of a value: a function is called with no receiver, a
  bound function with the receiver it was bound to; the call is recorded. Any other value
  is not a function. The messages of the \<open>TypeError\<close>s are those of V8.\<close>

fun call_value ::
  "runtime \<Rightarrow> jsval \<Rightarrow> jsval list \<Rightarrow> function_call list \<times> (jsval + jsval)" where
  "call_value rt (JFunction f) args = ([(f, JUndefined, args)], call_function rt f JUndefined args)"
| "call_value rt (JBound f t) args = ([(f, t, args)], call_function rt f t args)"
| "call_value rt v args = ([], Inl (new_TypeError rt ''func is not a function''))"

text \<open>The method call \<open>func.bind(thisArg)\<close>: the member \<open>bind\<close> of \<open>func\<close> is read and called
  with \<open>func\<close> as receiver. When the member is the engine's \<open>Function.prototype.bind\<close>, a
  function gives the function bound to \<open>thisArg\<close> (a bound function keeps its first
  receiver) and any other receiver a \<open>TypeError\<close>. When it is another function, that
  function is called; when it is no function, a \<open>TypeError\<close> is thrown.\<close>

definition bind ::
  "runtime \<Rightarrow> jsval \<Rightarrow> jsval \<Rightarrow> function_call list \<times> (jsval + jsval)" where
  "bind rt func thisArg =
     (case get_member rt func ''bind'' of
        (calls, Inl exp) \<Rightarrow> (calls, Inl exp)
      | (calls, Inr member) \<Rightarrow>
          if member = Function_bind then
            (case func of
               JFunction f \<Rightarrow> (calls, Inr (JBound f thisArg))
             | JBound f t \<Rightarrow> (calls, Inr (JBound f t))
             | _ \<Rightarrow> (calls, Inl (new_TypeError rt ''Bind must be called on a function'')))
          else
            (case member of
               JFunction g \<Rightarrow> (calls @ [(g, func, [thisArg])], call_function rt g func [thisArg])
             | JBound g t \<Rightarrow> (calls @ [(g, t, [thisArg])], call_function rt g t [thisArg])
             | _ \<Rightarrow> (calls, Inl (new_TypeError rt ''func.bind is not a function''))))"

text \<open>\<open>await func(...parameters)\<close>: the call, then the await of what it returned.\<close>

definition await_call ::
  "runtime \<Rightarrow> jsval \<Rightarrow> jsval list \<Rightarrow> function_call list \<times> outcome" where
  "await_call rt func params =
     (case call_value rt func params of
        (calls, Inl exp) \<Rightarrow> (calls, Throws exp)
      | (calls, Inr v) \<Rightarrow> (case await_value rt v of (later, r) \<Rightarrow> (calls @ later, r)))"

text \<open>The body of the \<open>try\<close> block of \<open>_Handle_function\<close>, up to and with the awaited
  \<open>_Send_return(uid, true, ret)\<close>.\<close>

definition Handle_function_try ::
  "runtime \<Rightarrow> hooks \<Rightarrow> nat \<Rightarrow> string \<Rightarrow> IParameter list \<Rightarrow> 'a Communicator_scheme
     \<Rightarrow> 'a Communicator_scheme \<times> outcome" where
  "Handle_function_try rt hk uid listener parameters this =
     (if provider this = JUndefined then
        (this, Throws (new_Error rt ''Error on Communicator._Handle_function(): the provider is not specified yet.''))
      else if provider this = JNull then
        (this, Throws (new_Error rt ''Error on Communicator._Handle_function(): the provider would not be.''))
      else
        case find_function rt listener (provider this) JUndefined (split_dot listener) of
          (calls1, Inl exp) \<Rightarrow> (this\<lparr>invoked := invoked this @ calls1\<rparr>, Throws exp)
        | (calls1, Inr (func, thisArg)) \<Rightarrow>
            (case bind rt func thisArg of
               (calls2, Inl exp) \<Rightarrow> (this\<lparr>invoked := invoked this @ calls1 @ calls2\<rparr>, Throws exp)
             | (calls2, Inr bound) \<Rightarrow>
                 (case await_call rt bound (map param_value parameters) of
                    (calls3, r) \<Rightarrow>
                      let this1 = this\<lparr>invoked := invoked this @ calls1 @ calls2 @ calls3\<rparr>
                      in (case r of
                            Returns ret \<Rightarrow> Send_return hk uid True ret this1
                          | Throws exp \<Rightarrow> (this1, Throws exp)
                          | Hangs \<Rightarrow> (this1, Hangs)))))"

definition Handle_function ::
  "runtime \<Rightarrow> hooks \<Rightarrow> nat \<Rightarrow> string \<Rightarrow> IParameter list \<Rightarrow> 'a Communicator_scheme
     \<Rightarrow> 'a Communicator_scheme \<times> outcome" where
  "Handle_function rt hk uid listener parameters this =
     (case Handle_function_try rt hk uid listener parameters this of
        (this1, Throws exp) \<Rightarrow> Send_return hk uid False exp this1
      | (this1, r) \<Rightarrow> (this1, r))"

definition Handle_return ::
  "nat \<Rightarrow> bool \<Rightarrow> jsval \<Rightarrow> 'a Communicator_scheme \<Rightarrow> 'a Communicator_scheme" where
  "Handle_return uid success val this =
     (case HashMap_find uid (promises this) of
        None \<Rightarrow> this
      | Some (first, second) \<Rightarrow>
          let func = (if success then first else second);
              this1 = this\<lparr>promises := HashMap_erase uid (promises this)\<rparr>
          in this1\<lparr>settled := settled this1 @ [(func, val)]\<rparr>)"

text \<open>
  \<open>replyData\<close>: the message is a call when its \<open>listener\<close> is truthy. The promise of
  \<open>_Handle_function\<close> is given a \<open>catch\<close> that drops its rejection. A call message with
  the empty listener goes to \<open>_Handle_return\<close>, where its \<open>success\<close> and \<open>value\<close> read
  \<open>undefined\<close>. The result is \<open>Inl\<close> for an exception thrown to the caller.
\<close>

definition replyData ::
  "runtime \<Rightarrow> hooks \<Rightarrow> Invoke \<Rightarrow> 'a Communicator_scheme \<Rightarrow> jsval + 'a Communicator_scheme" where
  "replyData rt hk invoke this =
     (case invoke of
        IFunction uid listener parameters \<Rightarrow>
          if listener \<noteq> [] then Inr (fst (Handle_function rt hk uid listener parameters this))
          else Inr (Handle_return uid False JUndefined this)
      | IReturn uid success val \<Rightarrow> Inr (Handle_return uid success val this))"


section \<open>Communicator: join and the destructor\<close>

text \<open>Modelled from the spec: the join coordinator is the \<open>ConditionVariable\<close> of the
  container library, which is not among the sources. Section 4.4: \<open>wait\<close> suspends until
  \<open>notify_all\<close>; \<open>wait_for\<close> and \<open>wait_until\<close> resolve \<open>true\<close> when woken by
  \<open>notify_all\<close>; one \<open>notify_all\<close> releases all waiters. The expiry of a timed wait is an
  event of real time and has no part here.\<close>

definition notify_all :: "'a Communicator_scheme \<Rightarrow> 'a Communicator_scheme" where
  "notify_all this =
     this\<lparr>settled := settled this
              @ map (\<lambda>(promise, timed). (Resolve promise, if timed then JBoolean True else JUndefined))
                    (join_cv this),
          join_cv := []\<rparr>"

datatype join_param = No_param | Ms int | At int

text \<open>\<open>join\<close> is an async method: it returns a promise, rejected at once when
  \<open>inspectReady\<close> gives an error, and waiting on the coordinator otherwise.\<close>

definition join ::
  "hooks \<Rightarrow> string \<Rightarrow> join_param \<Rightarrow> 'a Communicator_scheme \<Rightarrow> 'a Communicator_scheme \<times> nat" where
  "join hk cname param this =
     (let promise = promise_count this;
          this1 = this\<lparr>promise_count := Suc promise\<rparr>;
          error = inspectReady hk (cname @ ''.join'')
      in if truthy error then
           (this1\<lparr>settled := settled this1 @ [(Reject promise, error)]\<rparr>, promise)
         else
           (this1\<lparr>join_cv := join_cv this1 @ [(promise, param \<noteq> No_param)]\<rparr>, promise))"

text \<open>\<open>destructor(error?)\<close>; an omitted argument is \<open>undefined\<close>.\<close>

definition destructor ::
  "runtime \<Rightarrow> jsval \<Rightarrow> 'a Communicator_scheme \<Rightarrow> 'a Communicator_scheme" where
  "destructor rt error this =
     (let rejectError = (if truthy error then error else new_Error rt ''Connection has been closed.'');
          this1 = fold (\<lambda>entry t. t\<lparr>settled := settled t @ [(snd (snd entry), rejectError)]\<rparr>)
                       (promises this) this;
          this2 = this1\<lparr>promises := []\<rparr>
      in notify_all this2)"

definition setProvider :: "jsval \<Rightarrow> 'a Communicator_scheme \<Rightarrow> 'a Communicator_scheme" where
  "setProvider obj this = this\<lparr>provider := obj\<rparr>"

section \<open>Sessions\<close>

text \<open>
  What can happen to a communicator and to the counter of its process, one event at a
  time: a call through the driver, a message from the transport, the destructor, a new
  provider, a join, and a call issued by another communicator of the same process
  (which increments the shared \<open>SEQUENCE\<close>). Each event comes with the hooks as they
  answer at that moment.
\<close>

datatype event =
    Driver_call string "jsval list"
  | Receive Invoke
  | Destroy jsval
  | Set_provider jsval
  | Join string join_param
  | Other_call

fun step ::
  "runtime \<Rightarrow> hooks \<times> event \<Rightarrow> nat \<times> 'a Communicator_scheme \<Rightarrow> nat \<times> 'a Communicator_scheme" where
  "step rt (hk, Driver_call name params) st = fst (Call_function hk name params st)"
| "step rt (hk, Receive invoke) (SEQUENCE, this) =
     (case replyData rt hk invoke this of Inl exp \<Rightarrow> (SEQUENCE, this) | Inr this' \<Rightarrow> (SEQUENCE, this'))"
| "step rt (hk, Destroy error) (SEQUENCE, this) = (SEQUENCE, destructor rt error this)"
| "step rt (hk, Set_provider obj) (SEQUENCE, this) = (SEQUENCE, setProvider obj this)"
| "step rt (hk, Join cname param) (SEQUENCE, this) = (SEQUENCE, fst (join hk cname param this))"
| "step rt (hk, Other_call) (SEQUENCE, this) = (increment SEQUENCE, this)"

definition run ::
  "runtime \<Rightarrow> (hooks \<times> event) list \<Rightarrow> nat \<times> 'a Communicator_scheme \<Rightarrow> nat \<times> 'a Communicator_scheme" where
  "run rt evs st = fold (step rt) evs st"

text \<open>The uids minted by the communicator: those of the calls it has sent.\<close>

fun minted :: "Invoke list \<Rightarrow> nat list" where
  "minted [] = []"
| "minted (IFunction uid listener parameters # ms) = uid # minted ms"
| "minted (IReturn uid success val # ms) = minted ms"

section \<open>Concrete runtimes and hooks for the examples\<close>

text \<open>An engine for the examples: members are the entries of a plain object or the results
  of the getters of an object of accessors, a function inherits \<open>toString\<close> and \<open>bind\<close>;
  function 2 returns its first argument, function 3 throws it, function 4 returns
  function 2; awaited values are no thenables.\<close>

definition example_call :: "nat \<Rightarrow> jsval \<Rightarrow> jsval list \<Rightarrow> jsval + jsval" where
  "example_call f t args =
     (if f = 2 then Inr (case args of [] \<Rightarrow> JUndefined | a # _ \<Rightarrow> a)
      else if f = 3 then Inl (case args of [] \<Rightarrow> JUndefined | a # _ \<Rightarrow> a)
      else if f = 4 then Inr (JFunction 2)
      else Inr JUndefined)"

definition function_member :: "string \<Rightarrow> jsval" where
  "function_member name =
     (if name = ''toString'' then Function_toString
      else if name = ''bind'' then Function_bind
      else JUndefined)"

fun example_get :: "jsval \<Rightarrow> string \<Rightarrow> function_call list \<times> (jsval + jsval)" where
  "example_get JUndefined name =
     ([], Inl (JError ''TypeError'' ''Cannot read properties of undefined'' None []))"
| "example_get JNull name =
     ([], Inl (JError ''TypeError'' ''Cannot read properties of null'' None []))"
| "example_get (JObject ps) name =
     ([], case map_of ps name of None \<Rightarrow> Inr JUndefined | Some v \<Rightarrow> Inr v)"
| "example_get (JAccessors gs) name =
     (case map_of gs name of
        None \<Rightarrow> ([], Inr JUndefined)
      | Some g \<Rightarrow> ([(g, JAccessors gs, [])], example_call g (JAccessors gs) []))"
| "example_get (JFunction f) name = ([], Inr (function_member name))"
| "example_get (JBound f t) name = ([], Inr (function_member name))"
| "example_get v name = ([], Inr JUndefined)"

definition example_runtime :: runtime where
  "example_runtime =
     \<lparr> get_member = example_get, call_function = example_call,
       await_value = (\<lambda>v. ([], Returns v)),
       error_stack = (\<lambda>msg. None), create_list = (\<lambda>v. case v of JArray xs \<Rightarrow> Some xs | _ \<Rightarrow> None) \<rparr>"

text \<open>Hooks of a connector named \<open>cname\<close> with a transport that delivers every message,
  and hooks whose transport fails on every message with the string \<open>closed\<close>.\<close>

definition connector_hooks :: "string \<Rightarrow> ConnectorBase \<Rightarrow> hooks" where
  "connector_hooks cname this =
     \<lparr> inspectReady = ConnectorBase_inspectReady example_runtime cname this,
       transmit = (\<lambda>before invoke. Returns JUndefined) \<rparr>"

definition failing_hooks :: hooks where
  "failing_hooks =
     \<lparr> inspectReady = (\<lambda>method. JNull),
       transmit = (\<lambda>before invoke. Throws (JString ''closed'')) \<rparr>"

definition open_hooks :: hooks where
  "open_hooks =
     \<lparr> inspectReady = (\<lambda>method. JNull),
       transmit = (\<lambda>before invoke. Returns JUndefined) \<rparr>"


section \<open>Vocabulary of the stated properties\<close>

text \<open>The diagnostic text of \<open>inspectReady\<close>: subclass name, method name, state phrase.\<close>

definition diagnostic :: "string \<Rightarrow> string \<Rightarrow> string \<Rightarrow> string" where
  "diagnostic cname method phrase = ''Error on '' @ cname @ ''.'' @ method @ ''(): '' @ phrase"

text \<open>The dot-joined path of a chain of names.\<close>

fun dot_join :: "string list \<Rightarrow> string" where
  "dot_join [] = []"
| "dot_join [name] = name"
| "dot_join (name # rest) = name @ ''.'' @ dot_join rest"



text \<open>What \<open>_Send_return\<close> puts in the \<open>value\<close> of a negative return.\<close>

definition error_value :: "jsval \<Rightarrow> jsval" where
  "error_value exp = (if instanceof_Error exp then serializeError exp else exp)"


text \<open>What holds of the counter and a communicator throughout a session: no uid of the
  pending-call table and no uid minted so far exceeds the counter, the uids of the table
  are distinct, and while the counter is below \<open>2^53\<close> the minted uids are strictly
  increasing.\<close>

definition session_inv :: "nat \<times> 'a Communicator_scheme \<Rightarrow> bool" where
  "session_inv st =
     ((\<forall>uid\<in>set (map fst (promises (snd st))). uid \<le> fst st)
      \<and> (\<forall>uid\<in>set (minted (sent (snd st))). uid \<le> fst st)
      \<and> distinct (map fst (promises (snd st)))
      \<and> (fst st < 2 ^ 53 \<longrightarrow> sorted_wrt (<) (minted (sent (snd st)))))"

section \<open>The connector's readiness (ConnectorBase.inspectReady)\<close>

text \<open>
  C8. A new connector is in state \<open>NONE\<close>. \<open>inspectReady(method)\<close> returns \<open>null\<close> exactly
  in state \<open>OPEN\<close>; in every other state it returns an \<open>Error\<close> whose message is made of
  the subclass name, the method name and the phrase of the state: \<open>connect first.\<close> for
  \<open>NONE\<close>, \<open>it's on connecting, wait for a second.\<close> for \<open>CONNECTING\<close>, \<open>the connection is
  on closing.\<close> for \<open>CLOSING\<close>, \<open>the connection has been closed.\<close> for \<open>CLOSED\<close>, and
  \<open>unknown error, but not connected.\<close> for any other number.
\<close>

theorem inspectReady_by_state:
  "state (ConnectorBase_new h p) = NONE
   \<and> (ConnectorBase_inspectReady rt cname this method = JNull \<longleftrightarrow> state this = OPEN)
   \<and> (state this = NONE \<longrightarrow>
        ConnectorBase_inspectReady rt cname this method
          = new_Error rt (diagnostic cname method ''connect first.''))
   \<and> (state this = CONNECTING \<longrightarrow>
        ConnectorBase_inspectReady rt cname this method
          = new_Error rt (diagnostic cname method ''it's on connecting, wait for a second.''))
   \<and> (state this = CLOSING \<longrightarrow>
        ConnectorBase_inspectReady rt cname this method
          = new_Error rt (diagnostic cname method ''the connection is on closing.''))
   \<and> (state this = CLOSED \<longrightarrow>
        ConnectorBase_inspectReady rt cname this method
          = new_Error rt (diagnostic cname method ''the connection has been closed.''))
   \<and> (state this \<notin> {OPEN, NONE, CONNECTING, CLOSING, CLOSED} \<longrightarrow>
        ConnectorBase_inspectReady rt cname this method
          = new_Error rt (diagnostic cname method ''unknown error, but not connected.''))"
  by (simp add: ConnectorBase_inspectReady_def ConnectorBase_new_def Communicator.extend_def
      Communicator_new_def diagnostic_def new_Error_def
      NONE_def OPEN_def CONNECTING_def CLOSING_def CLOSED_def)

theorem inspectReady_by_state_witness:
  "state (ConnectorBase_new JNull JNull) = NONE
   \<and> ConnectorBase_inspectReady example_runtime ''WebSocketConnector''
        (ConnectorBase_new JNull JNull) ''join''
       = JError ''Error'' ''Error on WebSocketConnector.join(): connect first.'' None []
   \<and> ConnectorBase_inspectReady example_runtime ''WebSocketConnector''
        ((ConnectorBase_new JNull JNull)\<lparr>state := OPEN\<rparr>) ''join'' = JNull"
  using inspectReady_by_state [of JNull JNull example_runtime "''WebSocketConnector''"
          "ConnectorBase_new JNull JNull" "''join''"]
        inspectReady_by_state [of JNull JNull example_runtime "''WebSocketConnector''"
          "(ConnectorBase_new JNull JNull)\<lparr>state := OPEN\<rparr>" "''join''"]
  by (simp add: diagnostic_def new_Error_def example_runtime_def)


section \<open>Basic facts\<close>

lemma instanceof_Error_truthy: "instanceof_Error v \<Longrightarrow> truthy v"
  by (cases v) simp_all

lemma HashMap_find_erase: "HashMap_find uid (HashMap_erase uid table) = None"
  by (induction table) (auto simp: HashMap_find_def HashMap_erase_def)

lemma fold_settled:
  "fold (\<lambda>entry t. t\<lparr>settled := settled t @ [g entry]\<rparr>) xs this
     = this\<lparr>settled := settled this @ map g xs\<rparr>"
  by (induction xs arbitrary: this) simp_all

section \<open>Incoming returns (_Handle_return)\<close>

text \<open>
  C6. For an incoming \<open>IReturn{uid, success, value}\<close>: when \<open>uid\<close> is not in the pending-call
  table, nothing changes; when it is, the entry is removed and one continuation is invoked
  with \<open>value\<close>, \<open>resolve\<close> when \<open>success\<close> is true and \<open>reject\<close> when it is false.
\<close>

theorem return_settles_pending_call:
  "(HashMap_find uid (promises this) = None \<longrightarrow>
      replyData rt hk (IReturn uid success val) this = Inr this)
   \<and> (HashMap_find uid (promises this) = Some (first, second) \<longrightarrow>
      replyData rt hk (IReturn uid success val) this
        = Inr (this\<lparr>promises := HashMap_erase uid (promises this),
                    settled := settled this @ [(if success then first else second, val)]\<rparr>)
      \<and> HashMap_find uid (HashMap_erase uid (promises this)) = None)"
  by (simp add: replyData_def Handle_return_def HashMap_find_erase Let_def)

theorem return_settles_pending_call_witness:
  "replyData example_runtime open_hooks (IReturn 5 True (JNumber 42))
     ((Communicator_new JNull)\<lparr>promises := [(4, Resolve 0, Reject 0)]\<rparr>)
     = Inr ((Communicator_new JNull)\<lparr>promises := [(4, Resolve 0, Reject 0)]\<rparr>)
   \<and> replyData example_runtime open_hooks (IReturn 4 False (JString ''no''))
     ((Communicator_new JNull)\<lparr>promises := [(4, Resolve 0, Reject 0)]\<rparr>)
     = Inr ((Communicator_new JNull)\<lparr>promises := [], settled := [(Reject 0, JString ''no'')]\<rparr>)"
  using return_settles_pending_call [of 5
          "(Communicator_new JNull)\<lparr>promises := [(4, Resolve 0, Reject 0)]\<rparr>"
          example_runtime open_hooks True "JNumber 42" "Resolve 0" "Reject 0"]
        return_settles_pending_call [of 4
          "(Communicator_new JNull)\<lparr>promises := [(4, Resolve 0, Reject 0)]\<rparr>"
          example_runtime open_hooks False "JString ''no''" "Resolve 0" "Reject 0"]
  by (simp add: HashMap_find_def HashMap_erase_def Communicator_new_def)

section \<open>Call issuance when not ready (_Call_function)\<close>

text \<open>
  C5. When \<open>inspectReady\<close> returns an error, the promise returned by \<open>_Call_function\<close> is
  rejected with exactly that error, and nothing else changes: the sequence counter is not
  incremented, the pending-call table gets no entry, and \<open>sendData\<close> is not invoked.
\<close>

theorem not_ready_call_rejects:
  "instanceof_Error (inspectReady hk ''Communicator._Call_fuction'') \<Longrightarrow>
   Call_function hk name params (SEQUENCE, this)
     = ((SEQUENCE,
         this\<lparr>promise_count := Suc (promise_count this),
              settled := settled this
                @ [(Reject (promise_count this), inspectReady hk ''Communicator._Call_fuction'')]\<rparr>),
        promise_count this)
   \<and> promises (snd (fst (Call_function hk name params (SEQUENCE, this)))) = promises this
   \<and> sent (snd (fst (Call_function hk name params (SEQUENCE, this)))) = sent this"
  by (simp add: Call_function_def Let_def instanceof_Error_truthy)

theorem not_ready_call_rejects_witness:
  "instanceof_Error (inspectReady (connector_hooks ''Connector'' (ConnectorBase_new JNull JNull))
       ''Communicator._Call_fuction'')
   \<and> Call_function (connector_hooks ''Connector'' (ConnectorBase_new JNull JNull)) ''any'' []
       (7, ConnectorBase_new JNull JNull)
     = ((7, (ConnectorBase_new JNull JNull)\<lparr>promise_count := 1,
              settled := [(Reject 0, JError ''Error''
                 ''Error on Connector.Communicator._Call_fuction(): connect first.'' None [])]\<rparr>), 0)"
proof -
  have h: "instanceof_Error
             (inspectReady (connector_hooks ''Connector'' (ConnectorBase_new JNull JNull))
                ''Communicator._Call_fuction'')"
    by (simp add: connector_hooks_def ConnectorBase_inspectReady_def ConnectorBase_new_def
        Communicator.extend_def Communicator_new_def NONE_def OPEN_def new_Error_def)
  show ?thesis
    using h not_ready_call_rejects [OF h, of "''any''" "[]" 7 "ConnectorBase_new JNull JNull"]
    by (simp add: connector_hooks_def ConnectorBase_inspectReady_def ConnectorBase_new_def
        Communicator.extend_def Communicator_new_def NONE_def OPEN_def new_Error_def
        example_runtime_def)
qed

section \<open>The destructor\<close>

text \<open>
  C4. The destructor calls the \<open>reject\<close> of every entry of the pending-call table with the
  supplied error, or with a new \<open>Error\<close> of message \<open>Connection has been closed.\<close> when none
  was supplied; afterwards the table is empty, and \<open>notify_all\<close> has released every join
  in progress (the plain form resolves with nothing, a timed form with \<open>true\<close>).
\<close>

theorem destructor_rejects_all:
  "destructor rt error this
     = this\<lparr>settled := settled this
              @ map (\<lambda>entry. (snd (snd entry),
                               if truthy error then error
                               else new_Error rt ''Connection has been closed.''))
                    (promises this)
              @ map (\<lambda>(promise, timed). (Resolve promise, if timed then JBoolean True else JUndefined))
                    (join_cv this),
            promises := [], join_cv := []\<rparr>
   \<and> (instanceof_Error error \<longrightarrow> truthy error)
   \<and> \<not> truthy JUndefined
   \<and> error_message (new_Error rt ''Connection has been closed.'')
       = Some ''Connection has been closed.''"
  by (simp add: destructor_def notify_all_def fold_settled Let_def instanceof_Error_truthy
      new_Error_def)

theorem destructor_rejects_all_witness:
  "destructor example_runtime JUndefined
     ((Communicator_new JNull)\<lparr>promises := [(1, Resolve 0, Reject 0), (2, Resolve 2, Reject 2)],
         join_cv := [(1, False), (3, True)], promise_count := 4\<rparr>)
   = (Communicator_new JNull)\<lparr>promise_count := 4,
       settled := [(Reject 0, JError ''Error'' ''Connection has been closed.'' None []),
                   (Reject 2, JError ''Error'' ''Connection has been closed.'' None []),
                   (Resolve 1, JUndefined), (Resolve 3, JBoolean True)]\<rparr>
   \<and> instanceof_Error (JError ''Error'' ''bye'' None [])
   \<and> destructor example_runtime (JError ''Error'' ''bye'' None [])
     ((Communicator_new JNull)\<lparr>promises := [(1, Resolve 0, Reject 0)], promise_count := 1\<rparr>)
   = (Communicator_new JNull)\<lparr>promise_count := 1,
       settled := [(Reject 0, JError ''Error'' ''bye'' None [])]\<rparr>"
  using destructor_rejects_all [of example_runtime JUndefined
     "(Communicator_new JNull)\<lparr>promises := [(1, Resolve 0, Reject 0), (2, Resolve 2, Reject 2)],
         join_cv := [(1, False), (3, True)], promise_count := 4\<rparr>"]
    destructor_rejects_all [of example_runtime "JError ''Error'' ''bye'' None []"
     "(Communicator_new JNull)\<lparr>promises := [(1, Resolve 0, Reject 0)], promise_count := 1\<rparr>"]
  by (simp add: Communicator_new_def new_Error_def example_runtime_def)




section \<open>The access filter of the dispatch (_Handle_function)\<close>











section \<open>Failures of a dispatch (replyData, _Handle_function, _Send_return)\<close>




section \<open>A success reply that cannot be sent (_Handle_function, _Send_return)\<close>

text \<open>
  C10. When the provider function returns and the transmission of the success reply throws,
  the failure is caught and a second \<open>IReturn\<close> of the same uid is handed to \<open>sendData\<close>, with
  \<open>success: false\<close> and the send failure as value (serialized when it is an \<open>Error\<close>
  instance): one incoming call then causes two returns of one uid.
\<close>

theorem failed_success_reply_sends_second_return:
  assumes "provider this \<noteq> JUndefined" and "provider this \<noteq> JNull"
    and "find_function rt listener (provider this) JUndefined (split_dot listener)
           = (walked, Inr (func, thisArg))"
    and "bind rt func thisArg = (bound_calls, Inr bound)"
    and "await_call rt bound (map param_value parameters) = (called, Returns ret)"
    and "transmit hk (sent this) (IReturn uid True ret) = Throws exp"
  shows "fst (Handle_function rt hk uid listener parameters this)
           = this\<lparr>invoked := invoked this @ walked @ bound_calls @ called,
                  sent := sent this @ [IReturn uid True ret, IReturn uid False (error_value exp)]\<rparr>
         \<and> (listener \<noteq> [] \<longrightarrow>
              replyData rt hk (IFunction uid listener parameters) this
                = Inr (fst (Handle_function rt hk uid listener parameters this)))"
  using assms
  by (simp add: replyData_def Handle_function_def Handle_function_try_def Send_return_def
      sendData_def error_value_def Let_def)

theorem failed_success_reply_sends_second_return_witness:
  "replyData example_runtime failing_hooks (IFunction 9 ''obj.f'' [IParameter ''number'' (JNumber 3)])
          (Communicator_new (JObject [(''obj'', JObject [(''f'', JFunction 2)])]))
   = Inr ((Communicator_new (JObject [(''obj'', JObject [(''f'', JFunction 2)])]))
        \<lparr>invoked := [(2, JObject [(''f'', JFunction 2)], [JNumber 3])],
         sent := [IReturn 9 True (JNumber 3), IReturn 9 False (JString ''closed'')]\<rparr>)"
proof -
  let ?c0 = "Communicator_new (JObject [(''obj'', JObject [(''f'', JFunction 2)])])"
  have a: "provider ?c0 \<noteq> JUndefined" and b: "provider ?c0 \<noteq> JNull"
    by (simp_all add: Communicator_new_def)
  have c: "find_function example_runtime ''obj.f'' (provider ?c0) JUndefined (split_dot ''obj.f'')
            = ([], Inr (JFunction 2, JObject [(''f'', JFunction 2)]))"
    by (simp add: Communicator_new_def example_runtime_def starts_underscore_def
        ends_underscore_def)
  have d: "bind example_runtime (JFunction 2) (JObject [(''f'', JFunction 2)])
            = ([], Inr (JBound 2 (JObject [(''f'', JFunction 2)])))"
    by (simp add: bind_def example_runtime_def function_member_def Function_bind_def)
  have e: "await_call example_runtime (JBound 2 (JObject [(''f'', JFunction 2)]))
             (map param_value [IParameter ''number'' (JNumber 3)])
           = ([(2, JObject [(''f'', JFunction 2)], [JNumber 3])], Returns (JNumber 3))"
    by (simp add: await_call_def example_runtime_def example_call_def)
  have g: "transmit failing_hooks (sent ?c0) (IReturn 9 True (JNumber 3)) = Throws (JString ''closed'')"
    by (simp add: failing_hooks_def)
  from failed_success_reply_sends_second_return [OF a b c d e g]
  show ?thesis by (simp add: error_value_def Communicator_new_def)
qed

section \<open>Calls through the driver (_Proxy_func, _Call_function)\<close>

lemma dot_join_extend:
  "dot_join ((name @ ''.'' @ newName) # rest) = name @ ''.'' @ dot_join (newName # rest)"
  by (cases rest) simp_all

lemma read_chain_extends:
  "\<forall>n\<in>set rest. n \<notin> {''bind'', ''call'', ''apply''} \<Longrightarrow>
   read_chain (Proxy_func name) rest = Some (Proxy_func (dot_join (name # rest)))"
proof (induction rest arbitrary: name)
  case Nil
  then show ?case by simp
next
  case (Cons newName rest)
  then have "Proxy_func_get name newName = Proxy_func (name @ ''.'' @ newName)"
    by (simp add: Proxy_func_get_def)
  moreover from Cons have
    "read_chain (Proxy_func (name @ ''.'' @ newName)) rest
       = Some (Proxy_func (dot_join ((name @ ''.'' @ newName) # rest)))"
    by simp
  ultimately show ?case using dot_join_extend [of name newName rest] by simp
qed

text \<open>
  C3, amended. For a chain of attribute reads \<open>d.a.b.c\<close> on the driver whose first name is
  not \<open>then\<close> and whose later names are none of \<open>bind\<close>, \<open>call\<close>, \<open>apply\<close>, followed by an
  invocation with arguments \<open>(x, y, ...)\<close> while \<open>inspectReady\<close> returns no error, exactly one
  outbound \<open>IFunction\<close> is handed to \<open>sendData\<close>, with the dot-joined path as listener and
  \<open>[{type: typeof x, value: x}, ...]\<close> as parameters; a read of a further name other than
  \<open>bind\<close>, \<open>call\<close>, \<open>apply\<close> on a function node extends the dotted path.
\<close>

theorem driver_call_issues_one_message:
  assumes "names \<noteq> []" and "hd names \<noteq> ''then''"
    and "\<forall>n\<in>set (tl names). n \<notin> {''bind'', ''call'', ''apply''}"
    and "\<not> truthy (inspectReady hk ''Communicator._Call_fuction'')"
  shows "driver_read names = Some (Proxy_func (dot_join names))
     \<and> driver_call rt hk names args (SEQUENCE, this)
       = Issued (increment SEQUENCE,
           this\<lparr>promise_count := Suc (promise_count this),
                promises := HashMap_emplace (increment SEQUENCE)
                   (Resolve (promise_count this), Reject (promise_count this)) (promises this),
                sent := sent this @ [IFunction (increment SEQUENCE) (dot_join names)
                                       (map (\<lambda>x. IParameter (typeof x) x) args)]\<rparr>)
           (promise_count this)
     \<and> (newName \<notin> {''bind'', ''call'', ''apply''} \<longrightarrow>
          Proxy_func_get (dot_join names) newName = Proxy_func (dot_join names @ ''.'' @ newName))"
proof -
  from assms(1) obtain name rest where names: "names = name # rest" by (cases names) auto
  with assms(2,3) have "driver_read names = Some (Proxy_func (dot_join names))"
    using read_chain_extends [of rest name] by (simp add: driver_get_def)
  with assms(4) show ?thesis
    by (simp add: driver_call_def Call_function_def sendData_def Let_def Proxy_func_get_def)
qed

theorem driver_call_issues_one_message_witness:
  "driver_call example_runtime open_hooks [''math'', ''add''] [JNumber 2, JString ''x'']
     (0, Communicator_new JNull)
   = Issued (1, (Communicator_new JNull)\<lparr>promise_count := 1,
                  promises := [(1, Resolve 0, Reject 0)],
                  sent := [IFunction 1 ''math.add''
                     [IParameter ''number'' (JNumber 2), IParameter ''string'' (JString ''x'')]]\<rparr>) 0
   \<and> Proxy_func_get ''math.add'' ''d'' = Proxy_func ''math.add.d''"
proof -
  have a: "[''math'', ''add''] \<noteq> []" and b: "hd [''math'', ''add''] \<noteq> ''then''"
    and c: "\<forall>n\<in>set (tl [''math'', ''add'']). n \<notin> {''bind'', ''call'', ''apply''}"
    and d: "\<not> truthy (inspectReady open_hooks ''Communicator._Call_fuction'')"
    by (simp_all add: open_hooks_def)
  from driver_call_issues_one_message [OF a b c d, of example_runtime "[JNumber 2, JString ''x'']" 0
      "Communicator_new JNull" "''d''"]
  show ?thesis
    by (simp add: increment_def HashMap_emplace_def Communicator_new_def)
qed

text \<open>The names with a meaning of their own, and a call while not ready: \<open>d.a.call(1, 2)\<close>
  sends listener \<open>a\<close> with the one parameter 2, \<open>d.then.a()\<close> throws, and in state \<open>NONE\<close>
  \<open>d.a.b()\<close> sends nothing.\<close>

theorem driver_special_names:
  "driver_call example_runtime open_hooks [''a'', ''call''] [JNumber 1, JNumber 2]
     (0, Communicator_new JNull)
   = Issued (1, (Communicator_new JNull)\<lparr>promise_count := 1,
                  promises := [(1, Resolve 0, Reject 0)],
                  sent := [IFunction 1 ''a'' [IParameter ''number'' (JNumber 2)]]\<rparr>) 0
   \<and> driver_call example_runtime open_hooks [''then'', ''a''] [] (0, Communicator_new JNull)
     = Type_error
   \<and> driver_call example_runtime (connector_hooks ''Connector'' (ConnectorBase_new JNull JNull))
       [''a'', ''b''] [] (0, Communicator_new JNull)
     = Issued (0, (Communicator_new JNull)\<lparr>promise_count := 1,
         settled := [(Reject 0, JError ''Error''
            ''Error on Connector.Communicator._Call_fuction(): connect first.'' None [])]\<rparr>) 0"
  by (simp add: driver_call_def driver_get_def Proxy_func_get_def Call_function_def sendData_def
      open_hooks_def connector_hooks_def ConnectorBase_inspectReady_def ConnectorBase_new_def
      Communicator.extend_def Communicator_new_def NONE_def OPEN_def new_Error_def
      example_runtime_def increment_def HashMap_emplace_def Let_def)

section \<open>The name then on the driver\<close>

text \<open>
  C9. A read of \<open>then\<close> on the driver yields \<open>null\<close>. On a function node the handler of
  \<open>_Proxy_func\<close> has no such case: the read of \<open>then\<close> on \<open>d.a\<close> yields the callable node of
  the path \<open>a.then\<close>, and calling it with the two functions of a promise adoption sends a
  remote call.
\<close>

theorem then_on_function_node:
  "driver_get ''then'' = Driver_null
   \<and> Proxy_func_get ''a'' ''then'' = Proxy_func ''a.then''
   \<and> driver_call example_runtime open_hooks [''a'', ''then''] [JFunction 7, JFunction 8]
       (0, Communicator_new JNull)
     = Issued (1, (Communicator_new JNull)\<lparr>promise_count := 1,
                  promises := [(1, Resolve 0, Reject 0)],
                  sent := [IFunction 1 ''a.then''
                     [IParameter ''function'' (JFunction 7), IParameter ''function'' (JFunction 8)]]\<rparr>) 0"
  by (simp add: driver_call_def driver_get_def Proxy_func_get_def Call_function_def sendData_def
      open_hooks_def Communicator_new_def increment_def HashMap_emplace_def Let_def)


section \<open>The uids of a session (SEQUENCE, _Call_function)\<close>

lemma minted_append: "minted (xs @ ys) = minted xs @ minted ys"
  by (induction xs rule: minted.induct) simp_all

lemma increment_ge: "n \<le> increment n"
  by (simp add: increment_def)

lemma increment_below: "increment n < 2 ^ 53 \<Longrightarrow> n < 2 ^ 53 \<and> increment n = n + 1"
  by (simp add: increment_def split: if_splits)

lemma Send_return_fields:
  "promises (fst (Send_return hk uid success val this)) = promises this"
  "minted (sent (fst (Send_return hk uid success val this))) = minted (sent this)"
  by (simp_all add: Send_return_def sendData_def minted_append Let_def)

lemma Handle_function_try_fields:
  "promises (fst (Handle_function_try rt hk uid listener parameters this)) = promises this"
  "minted (sent (fst (Handle_function_try rt hk uid listener parameters this))) = minted (sent this)"
  by (simp_all add: Handle_function_try_def Send_return_fields Let_def
      split: sum.splits prod.splits outcome.splits)

lemma Handle_function_fields:
  "promises (fst (Handle_function rt hk uid listener parameters this)) = promises this"
  "minted (sent (fst (Handle_function rt hk uid listener parameters this))) = minted (sent this)"
proof -
  obtain this1 r where t: "Handle_function_try rt hk uid listener parameters this = (this1, r)"
    by (cases "Handle_function_try rt hk uid listener parameters this")
  with Handle_function_try_fields [of rt hk uid listener parameters this]
  have "promises this1 = promises this" "minted (sent this1) = minted (sent this)" by simp_all
  with t show "promises (fst (Handle_function rt hk uid listener parameters this)) = promises this"
    "minted (sent (fst (Handle_function rt hk uid listener parameters this))) = minted (sent this)"
    by (cases r; simp add: Handle_function_def Send_return_fields)+
qed

lemma Handle_return_fields:
  "set (map fst (promises (Handle_return uid success val this))) \<subseteq> set (map fst (promises this))"
  "distinct (map fst (promises this)) \<Longrightarrow> distinct (map fst (promises (Handle_return uid success val this)))"
  "sent (Handle_return uid success val this) = sent this"
  by (auto simp: Handle_return_def HashMap_erase_def Let_def distinct_map_filter split: option.splits)

lemma session_inv_fields:
  assumes inv: "session_inv (SEQUENCE, this)"
    and keys: "set (map fst (promises this')) \<subseteq> set (map fst (promises this))"
    and dist: "distinct (map fst (promises this)) \<longrightarrow> distinct (map fst (promises this'))"
    and same: "minted (sent this') = minted (sent this)"
  shows "session_inv (SEQUENCE, this')"
proof -
  have 1: "\<forall>uid\<in>set (map fst (promises this')). uid \<le> SEQUENCE"
    using inv keys unfolding session_inv_def fst_conv snd_conv by blast
  have 2: "distinct (map fst (promises this'))"
    using inv dist unfolding session_inv_def fst_conv snd_conv by blast
  from inv 1 2 show ?thesis
    unfolding session_inv_def fst_conv snd_conv same by blast
qed

lemma session_inv_Handle_return:
  assumes "session_inv (SEQUENCE, this)"
  shows "session_inv (SEQUENCE, Handle_return uid success val this)"
proof (rule session_inv_fields [OF assms])
  show "set (map fst (promises (Handle_return uid success val this)))
          \<subseteq> set (map fst (promises this))"
    by (rule Handle_return_fields(1))
  show "distinct (map fst (promises this))
          \<longrightarrow> distinct (map fst (promises (Handle_return uid success val this)))"
    using Handle_return_fields(2) by blast
  show "minted (sent (Handle_return uid success val this)) = minted (sent this)"
    by (simp add: Handle_return_fields(3))
qed

lemma session_inv_Call_function:
  assumes "session_inv st"
  shows "session_inv (fst (Call_function hk name params st))"
proof (cases "truthy (inspectReady hk ''Communicator._Call_fuction'')")
  case True
  with assms show ?thesis by (simp add: session_inv_def Call_function_def Let_def)
next
  case False
  obtain SEQUENCE this where st: "st = (SEQUENCE, this)" by (cases st)
  let ?uid = "increment SEQUENCE"
  from assms st have keys: "\<forall>uid\<in>set (map fst (promises this)). uid \<le> SEQUENCE"
    and old: "\<forall>uid\<in>set (minted (sent this)). uid \<le> SEQUENCE"
    and dist: "distinct (map fst (promises this))"
    and sorted: "SEQUENCE < 2 ^ 53 \<longrightarrow> sorted_wrt (<) (minted (sent this))"
    by (simp_all add: session_inv_def)
  have le: "SEQUENCE \<le> ?uid" by (rule increment_ge)
  have emplace_keys: "set (map fst (HashMap_emplace ?uid p (promises this)))
      \<subseteq> insert ?uid (set (map fst (promises this)))" for p
    by (auto simp: HashMap_emplace_def split: option.splits)
  have emplace_distinct: "distinct (map fst (HashMap_emplace ?uid p (promises this)))" for p
    using dist by (auto simp: HashMap_emplace_def map_of_eq_None_iff split: option.splits)
  have k: "\<forall>uid\<in>set (map fst (HashMap_emplace ?uid p (promises this))). uid \<le> ?uid" for p
    using emplace_keys [of p] keys le by fastforce
  have m: "\<forall>uid\<in>set (minted (sent this) @ [?uid]). uid \<le> ?uid"
    using old le by fastforce
  have s: "?uid < 2 ^ 53 \<longrightarrow> sorted_wrt (<) (minted (sent this) @ [?uid])"
  proof
    assume "?uid < 2 ^ 53"
    then have "SEQUENCE < 2 ^ 53" and "?uid = SEQUENCE + 1" using increment_below by blast+
    with sorted old show "sorted_wrt (<) (minted (sent this) @ [?uid])"
      by (auto simp: sorted_wrt_append)
  qed
  from False st k m s emplace_distinct show ?thesis
    by (simp add: session_inv_def Call_function_def sendData_def minted_append Let_def)
qed

lemma session_inv_step:
  assumes "session_inv st"
  shows "session_inv (step rt e st)"
proof -
  obtain SEQUENCE this where st: "st = (SEQUENCE, this)" by (cases st)
  obtain hk ev where e: "e = (hk, ev)" by (cases e)
  from assms st have inv: "session_inv (SEQUENCE, this)" by simp
  show ?thesis
  proof (cases ev)
    case (Driver_call name params)
    with e assms session_inv_Call_function [of st hk name params] show ?thesis by simp
  next
    case (Receive invoke)
    have "session_inv (SEQUENCE, this')" if "replyData rt hk invoke this = Inr this'" for this'
    proof (cases invoke)
      case (IFunction uid listener parameters)
      show ?thesis
      proof (cases "listener = []")
        case True
        with IFunction that have "this' = Handle_return uid False JUndefined this"
          by (simp add: replyData_def)
        with inv show ?thesis
          by (simp add: session_inv_Handle_return)
      next
        case False
        with IFunction that have "this' = fst (Handle_function rt hk uid listener parameters this)"
          by (simp add: replyData_def)
        moreover have "session_inv (SEQUENCE, fst (Handle_function rt hk uid listener parameters this))"
          by (rule session_inv_fields [OF inv]) (simp_all add: Handle_function_fields)
        ultimately show ?thesis by simp
      qed
    next
      case (IReturn uid success val)
      with that have "this' = Handle_return uid success val this"
        by (simp add: replyData_def)
      with inv show ?thesis
        by (simp add: session_inv_Handle_return)
    qed
    with Receive e st inv show ?thesis by (simp split: sum.splits)
  next
    case (Destroy error)
    have "session_inv (SEQUENCE, destructor rt error this)"
      by (rule session_inv_fields [OF inv])
         (simp_all add: destructor_def notify_all_def fold_settled Let_def)
    with Destroy e st show ?thesis by simp
  next
    case (Set_provider obj)
    have "session_inv (SEQUENCE, setProvider obj this)"
      by (rule session_inv_fields [OF inv]) (simp_all add: setProvider_def)
    with Set_provider e st show ?thesis by simp
  next
    case (Join cname param)
    have "session_inv (SEQUENCE, fst (join hk cname param this))"
      by (rule session_inv_fields [OF inv]) (simp_all add: join_def Let_def)
    with Join e st show ?thesis by simp
  next
    case Other_call
    from inv increment_ge [of SEQUENCE] increment_below [of SEQUENCE]
    have "session_inv (increment SEQUENCE, this)"
      unfolding session_inv_def fst_conv snd_conv by (meson le_trans)
    with Other_call e st show ?thesis by simp
  qed
qed

lemma session_inv_run: "session_inv st \<Longrightarrow> session_inv (run rt evs st)"
  unfolding run_def by (induction evs arbitrary: st) (simp_all add: session_inv_step)

lemma session_inv_new: "promises this = [] \<Longrightarrow> sent this = [] \<Longrightarrow> session_inv (SEQUENCE, this)"
  by (simp add: session_inv_def)


text \<open>
  C7, amended. In any session of a communicator (calls through the driver, messages from the
  transport, the destructor, joins, new providers, and calls issued by other communicators
  of the process), as long as the process-wide counter is below \<open>2^53\<close>: a successful call
  issuance mints the counter plus one, which is strictly greater than every uid minted
  before and than every uid of the pending-call table; the new entry is added to the table,
  whose uids stay distinct, and the uids minted by the communicator are strictly increasing.
\<close>

theorem minted_uid_is_fresh:
  assumes new: "promises this0 = []" "sent this0 = []"
    and session: "run rt evs (SEQUENCE0, this0) = (SEQUENCE, this)"
    and below: "SEQUENCE < 2 ^ 53"
    and ready: "\<not> truthy (inspectReady hk ''Communicator._Call_fuction'')"
  shows "fst (fst (Call_function hk name params (SEQUENCE, this))) = SEQUENCE + 1
     \<and> sent (snd (fst (Call_function hk name params (SEQUENCE, this))))
         = sent this @ [IFunction (SEQUENCE + 1) name (map (\<lambda>p. IParameter (typeof p) p) params)]
     \<and> promises (snd (fst (Call_function hk name params (SEQUENCE, this))))
         = promises this
           @ [(SEQUENCE + 1, Resolve (promise_count this), Reject (promise_count this))]
     \<and> (\<forall>uid\<in>set (minted (sent this)). uid < SEQUENCE + 1)
     \<and> (\<forall>uid\<in>set (map fst (promises this)). uid < SEQUENCE + 1)
     \<and> distinct (map fst (promises (snd (fst (Call_function hk name params (SEQUENCE, this))))))
     \<and> sorted_wrt (<) (minted (sent (snd (fst (Call_function hk name params (SEQUENCE, this))))))"
proof -
  have "session_inv (run rt evs (SEQUENCE0, this0))"
    by (rule session_inv_run) (rule session_inv_new [OF new])
  with session have inv: "session_inv (SEQUENCE, this)" by simp
  from inv have keys: "\<forall>uid\<in>set (map fst (promises this)). uid \<le> SEQUENCE"
    and old: "\<forall>uid\<in>set (minted (sent this)). uid \<le> SEQUENCE"
    and dist: "distinct (map fst (promises this))"
    unfolding session_inv_def fst_conv snd_conv by blast+
  from inv below have sorted: "sorted_wrt (<) (minted (sent this))"
    unfolding session_inv_def fst_conv snd_conv by blast
  have uid: "increment SEQUENCE = SEQUENCE + 1" using below by (simp add: increment_def)
  from keys have "SEQUENCE + 1 \<notin> set (map fst (promises this))" by fastforce
  then have absent: "map_of (promises this) (SEQUENCE + 1) = None"
    by (simp add: map_of_eq_None_iff)
  have 1: "fst (fst (Call_function hk name params (SEQUENCE, this))) = SEQUENCE + 1"
    using ready uid by (simp add: Call_function_def Let_def)
  have 2: "sent (snd (fst (Call_function hk name params (SEQUENCE, this))))
         = sent this @ [IFunction (SEQUENCE + 1) name (map (\<lambda>p. IParameter (typeof p) p) params)]"
    using ready uid by (simp add: Call_function_def sendData_def Let_def)
  have 3: "promises (snd (fst (Call_function hk name params (SEQUENCE, this))))
         = promises this
           @ [(SEQUENCE + 1, Resolve (promise_count this), Reject (promise_count this))]"
    using ready uid absent
    by (simp add: Call_function_def sendData_def HashMap_emplace_def Let_def)
  have 4: "\<forall>uid\<in>set (minted (sent this)). uid < SEQUENCE + 1" using old by fastforce
  have 5: "\<forall>uid\<in>set (map fst (promises this)). uid < SEQUENCE + 1" using keys by fastforce
  have 6: "distinct (map fst (promises this
           @ [(SEQUENCE + 1, Resolve (promise_count this), Reject (promise_count this))]))"
    using dist 5 by auto
  have 7: "sorted_wrt (<) (minted (sent this
      @ [IFunction (SEQUENCE + 1) name (map (\<lambda>p. IParameter (typeof p) p) params)]))"
    using sorted 4 by (simp add: minted_append sorted_wrt_append)
  from 1 2 3 4 5 6 7 show ?thesis by (simp only: simp_thms)
qed

theorem minted_uid_is_fresh_witness:
  "run example_runtime
     [(open_hooks, Driver_call ''f'' []), (open_hooks, Receive (IReturn 1 True (JNumber 5))),
      (open_hooks, Driver_call ''g'' [])] (0, Communicator_new JNull)
   = (2, (Communicator_new JNull)\<lparr>promises := [(2, Resolve 1, Reject 1)],
           sent := [IFunction 1 ''f'' [], IFunction 2 ''g'' []],
           settled := [(Resolve 0, JNumber 5)], promise_count := 2\<rparr>)
   \<and> fst (fst (Call_function open_hooks ''h'' []
        (2, (Communicator_new JNull)\<lparr>promises := [(2, Resolve 1, Reject 1)],
           sent := [IFunction 1 ''f'' [], IFunction 2 ''g'' []],
           settled := [(Resolve 0, JNumber 5)], promise_count := 2\<rparr>))) = 3
   \<and> promises (snd (fst (Call_function open_hooks ''h'' []
        (2, (Communicator_new JNull)\<lparr>promises := [(2, Resolve 1, Reject 1)],
           sent := [IFunction 1 ''f'' [], IFunction 2 ''g'' []],
           settled := [(Resolve 0, JNumber 5)], promise_count := 2\<rparr>))))
      = [(2, Resolve 1, Reject 1), (3, Resolve 2, Reject 2)]"
proof -
  let ?c = "(Communicator_new JNull)\<lparr>promises := [(2, Resolve 1, Reject 1)],
           sent := [IFunction 1 ''f'' [], IFunction 2 ''g'' []],
           settled := [(Resolve 0, JNumber 5)], promise_count := 2\<rparr>"
  have a: "promises (Communicator_new JNull) = []" and b: "sent (Communicator_new JNull) = []"
    by (simp_all add: Communicator_new_def)
  have c: "run example_runtime
     [(open_hooks, Driver_call ''f'' []), (open_hooks, Receive (IReturn 1 True (JNumber 5))),
      (open_hooks, Driver_call ''g'' [])] (0, Communicator_new JNull) = (2, ?c)"
    by (simp add: run_def Call_function_def sendData_def replyData_def Handle_return_def
        HashMap_find_def HashMap_erase_def HashMap_emplace_def increment_def open_hooks_def
        Communicator_new_def Let_def)
  have d: "(2::nat) < 2 ^ 53" by simp
  have e: "\<not> truthy (inspectReady open_hooks ''Communicator._Call_fuction'')"
    by (simp add: open_hooks_def)
  from minted_uid_is_fresh [OF a b c d e, of "''h''" "[]"] c
  show ?thesis by (simp add: Communicator_new_def)
qed

text \<open>At \<open>2^53\<close> the increment leaves the counter as it is: after \<open>2^53\<close> calls issued in the
  process, two further calls both get the uid \<open>2^53\<close>, and the second finds the key present
  in the table, which keeps the entry of the first.\<close>

lemma run_append: "run rt (xs @ ys) st = run rt ys (run rt xs st)"
  by (simp add: run_def)

lemma run_Other_calls:
  "run rt (replicate n (hk, Other_call)) (SEQUENCE, this) = ((increment ^^ n) SEQUENCE, this)"
proof (induction n arbitrary: SEQUENCE)
  case 0
  then show ?case by (simp add: run_def)
next
  case (Suc n)
  have "run rt (replicate (Suc n) (hk, Other_call)) (SEQUENCE, this)
          = run rt (replicate n (hk, Other_call)) (increment SEQUENCE, this)"
    by (simp add: run_def)
  with Suc show ?case by (simp add: funpow_swap1)
qed

lemma increment_funpow: "(increment ^^ n) 0 = min n (2 ^ 53)"
  by (induction n) (auto simp: increment_def)

theorem counter_stops_at_2_53:
  "minted (sent (snd (run example_runtime
      (replicate (2 ^ 53) (open_hooks, Other_call)
        @ [(open_hooks, Driver_call ''f'' []), (open_hooks, Driver_call ''g'' [])])
      (0, Communicator_new JNull)))) = [2 ^ 53, 2 ^ 53]
   \<and> promises (snd (run example_runtime
      (replicate (2 ^ 53) (open_hooks, Other_call)
        @ [(open_hooks, Driver_call ''f'' []), (open_hooks, Driver_call ''g'' [])])
      (0, Communicator_new JNull))) = [(2 ^ 53, Resolve 0, Reject 0)]"
proof -
  have "run example_runtime (replicate (2 ^ 53) (open_hooks, Other_call)) (0, Communicator_new JNull)
          = (2 ^ 53, Communicator_new JNull)"
    by (simp only: run_Other_calls increment_funpow min.idem)
  then have "run example_runtime
      (replicate (2 ^ 53) (open_hooks, Other_call)
        @ [(open_hooks, Driver_call ''f'' []), (open_hooks, Driver_call ''g'' [])])
      (0, Communicator_new JNull)
      = run example_runtime [(open_hooks, Driver_call ''f'' []), (open_hooks, Driver_call ''g'' [])]
          (2 ^ 53, Communicator_new JNull)"
    by (simp only: run_append)
  moreover have "run example_runtime
          [(open_hooks, Driver_call ''f'' []), (open_hooks, Driver_call ''g'' [])]
          (2 ^ 53, Communicator_new JNull)
      = (2 ^ 53, (Communicator_new JNull)\<lparr>promises := [(2 ^ 53, Resolve 0, Reject 0)],
            sent := [IFunction (2 ^ 53) ''f'' [], IFunction (2 ^ 53) ''g'' []],
            promise_count := 2\<rparr>)"
    by (simp add: run_def Call_function_def sendData_def HashMap_emplace_def increment_def
        open_hooks_def Communicator_new_def Let_def)
  ultimately show ?thesis by (simp add: Communicator_new_def)
qed

end
